theory Spec2Isabelle
  imports Main "HOL-Library.Sublist"
begin

section \<open>The recommendation workflow of \<open>multi_Agents/multi_agent.py\<close>\<close>

text \<open>
  The module declares a graph of six nodes over a shared \<open>RecommendationState\<close>
  dictionary. Each node returns a dictionary of the keys it changes, which the graph
  runtime writes over the state before it follows the outgoing edge. The three
  collaborators (\<open>CollegeRecommender.check_and_classify_query\<close>,
  \<open>validate_and_compare\<close>, \<open>WebSearchRecommender.recommend\<close>) live in
  other modules; here they are parameters, each of which may raise or return a response.

  Python strings are modelled as \<open>string\<close> (UTF-8 bytes; \<open>in\<close> on two
  strings is contiguous containment, which UTF-8 preserves). A dictionary key that a
  reader fetches with \<open>.get\<close> may be missing and is an \<open>entry\<close>; a value
  that may be \<open>None\<close> is an \<open>option\<close>. A key that the code reads by subscript
  is a plain field of the record: the responses are taken to carry it. What the nodes
  print is left out, except where computing the printed value can raise.
\<close>

subsection \<open>Python values\<close>

datatype 'a entry = Absent | Present 'a

text \<open>\<open>d.get(k, default)\<close>\<close>

fun get_field :: "'a entry \<Rightarrow> 'a \<Rightarrow> 'a" where
  "get_field Absent d = d"
| "get_field (Present v) d = v"

text \<open>Truth value of \<open>d.get(k)\<close> for a list: a missing key gives \<open>None\<close>, which is
  false, as the empty list is.\<close>

fun truthy_list :: "'a list entry \<Rightarrow> bool" where
  "truthy_list Absent = False"
| "truthy_list (Present xs) = (xs \<noteq> [])"

text \<open>Truth value of an \<open>Optional[bool]\<close>.\<close>

fun truthy_bool :: "bool option \<Rightarrow> bool" where
  "truthy_bool None = False"
| "truthy_bool (Some b) = b"

text \<open>
  \<open>str.lower()\<close>, on UTF-8 bytes. It sends exactly these characters to text that
  holds an ASCII character: the letters \<open>A\<close> to \<open>Z\<close>, to \<open>a\<close> to \<open>z\<close>;
  the Kelvin sign U+212A (bytes \<open>E2 84 AA\<close>), to \<open>k\<close>; and the dotted capital I
  U+0130 (bytes \<open>C4 B0\<close>), to \<open>i\<close> followed by the combining dot U+0307 (bytes
  \<open>CC 87\<close>). Every other character goes to characters outside ASCII and is kept as
  it is here: the ASCII letters of the result, and where they stand next to each other,
  are those of \<open>str.lower()\<close>, so an ASCII keyword occurs in the one exactly when it
  occurs in the other.
\<close>

definition char_lower :: "char \<Rightarrow> char" where
  "char_lower c =
     (case map_of (zip ''ABCDEFGHIJKLMNOPQRSTUVWXYZ'' ''abcdefghijklmnopqrstuvwxyz'') c of
        None \<Rightarrow> c
      | Some l \<Rightarrow> l)"

fun lower :: "string \<Rightarrow> string" where
  "lower [] = []"
| "lower [c] = [char_lower c]"
| "lower [c, d] =
     (if c = CHR 0xC4 \<and> d = CHR 0xB0 then [CHR ''i'', CHR 0xCC, CHR 0x87]
      else char_lower c # lower [d])"
| "lower (c # d # e # s) =
     (if c = CHR 0xE2 \<and> d = CHR 0x84 \<and> e = CHR 0xAA then CHR ''k'' # lower s
      else if c = CHR 0xC4 \<and> d = CHR 0xB0 then CHR ''i'' # CHR 0xCC # CHR 0x87 # lower (e # s)
      else char_lower c # lower (d # e # s))"

text \<open>\<open>needle in haystack\<close> for two strings.\<close>

definition str_in :: "string \<Rightarrow> string \<Rightarrow> bool" where
  "str_in needle haystack = sublist needle haystack"

datatype error = ServiceError | TypeError

subsection \<open>Records of the state and of the collaborators' responses\<close>

text \<open>The dictionary \<open>query_web_node\<close> builds:
  \<open>{'text': ..., 'metadata': {'source': ..., 'results_analyzed': ...}}\<close>.\<close>

record metadata =
  source :: string
  results_analyzed :: int

record web_record =
  wr_text :: string
  wr_metadata :: metadata

text \<open>Values stored in the \<open>final_output\<close> dictionary; \<open>'r\<close> is the type of
  one Snowflake or RAG result.\<close>

datatype 'r pyval =
    PNone
  | PBool bool
  | PStr string
  | PRows "'r list"
  | PWeb "web_record list"

fun opt_str :: "string option \<Rightarrow> 'r pyval" where
  "opt_str None = PNone"
| "opt_str (Some t) = PStr t"

record 'r RecommendationState =
  user_query :: string
  is_college_related :: bool
  is_comparison_query :: "bool entry"
  safety_check_passed :: bool
  combined_agent_results :: "string option"
  snowflake_results :: "'r list entry"
  rag_results :: "'r list entry"
  web_results :: "web_record list"
  final_output :: "(string \<rightharpoonup> 'r pyval) option"
  early_response :: "string option"
  fallback_used :: "bool option"
  fallback_message :: "string option"

text \<open>What \<open>check_and_classify_query\<close> returns: three keys read by subscript and
  \<open>response\<close>, read with \<open>.get\<close>.\<close>

record classification =
  cl_is_college_related :: bool
  cl_safety_check_passed :: bool
  cl_context :: string
  cl_response :: "string option entry"

text \<open>What \<open>validate_and_compare\<close> returns: the combined text, read by subscript, and
  the two result lists, read with \<open>.get\<close>.\<close>

record 'r primary_result =
  pr_combined_agent_results :: "string option"
  pr_snowflake_results :: "'r list entry"
  pr_rag_results :: "'r list entry"

text \<open>What \<open>recommend\<close> returns.\<close>

record web_response =
  response :: string
  wr_results_analyzed :: int

record 'r services =
  check_and_classify_query :: "string \<Rightarrow> error + classification"
  validate_and_compare :: "string \<Rightarrow> error + 'r primary_result"
  recommend :: "string \<Rightarrow> error + web_response"

text \<open>The calls made to the collaborators, in order, each with its argument.\<close>

datatype call = Classify string | Retrieve string | WebSearch string

subsection \<open>The nodes\<close>

definition COMPARISON_RESPONSE :: string where
  "COMPARISON_RESPONSE =
     ''I specialize in college recommendations, not comparisons. Please ask about specific programs or colleges.''"

definition comparison_keywords :: "string list" where
  "comparison_keywords =
     [''compare'', ''vs'', ''versus'', ''difference'', ''better'', ''worse'', ''ranking'']"

definition detect_comparison_node :: "'r RecommendationState \<Rightarrow> 'r RecommendationState" where
  "detect_comparison_node state =
     (let query_lower = lower (user_query state);
          is_comparison = list_ex (\<lambda>keyword. str_in keyword query_lower) comparison_keywords
      in state\<lparr>is_comparison_query := Present is_comparison,
               early_response := (if is_comparison then Some COMPARISON_RESPONSE else None)\<rparr>)"

definition REJECTION_RESPONSE :: string where
  "REJECTION_RESPONSE = ''Sorry I can't do that. I can assist you with college recommendations.''"

text \<open>There is no \<open>try\<close> in this node: what the classifier raises leaves the node.
  In the first branch \<open>state.get('early_response', ...)\<close> reads a key that every
  initial state carries and \<open>detect_comparison_node\<close> has written, so the default is
  never used.\<close>

definition check_prompt_node ::
  "'r services \<Rightarrow> 'r RecommendationState \<Rightarrow> call list \<times> (error + 'r RecommendationState)" where
  "check_prompt_node env state =
     (if get_field (is_comparison_query state) False
      then ([], Inr (state\<lparr>is_college_related := False,
                             safety_check_passed := False,
                             early_response := early_response state\<rparr>))
      else
        ([Classify (user_query state)],
         case check_and_classify_query env (user_query state) of
           Inl e \<Rightarrow> Inl e
         | Inr classification \<Rightarrow>
             if cl_context classification \<noteq> ''college''
             then Inr (state\<lparr>is_college_related := False,
                              safety_check_passed := cl_safety_check_passed classification,
                              early_response :=
                                get_field (cl_response classification) (Some REJECTION_RESPONSE)\<rparr>)
             else Inr (state\<lparr>is_college_related := True, safety_check_passed := True\<rparr>)))"

definition PRIMARY_ERROR_MESSAGE :: string where
  "PRIMARY_ERROR_MESSAGE = ''Error processing your request''"

text \<open>The body of the \<open>try\<close>: the call, the three \<open>len\<close> of the progress report
  (\<open>len(None)\<close> raises), and the returned dictionary.\<close>

definition query_combined_agent_try ::
  "'r services \<Rightarrow> 'r RecommendationState \<Rightarrow> error + 'r RecommendationState" where
  "query_combined_agent_try env state =
     (case validate_and_compare env (user_query state) of
        Inl e \<Rightarrow> Inl e
      | Inr result \<Rightarrow>
          (case pr_combined_agent_results result of
             None \<Rightarrow> Inl TypeError
           | Some t \<Rightarrow>
               Inr (state\<lparr>combined_agent_results := Some t,
                          snowflake_results := Present (get_field (pr_snowflake_results result) []),
                          rag_results := Present (get_field (pr_rag_results result) []),
                          fallback_used := Some False\<rparr>)))"

definition query_combined_agent_node ::
  "'r services \<Rightarrow> 'r RecommendationState \<Rightarrow> call list \<times> 'r RecommendationState" where
  "query_combined_agent_node env state =
     ([Retrieve (user_query state)],
      case query_combined_agent_try env state of
        Inr state' \<Rightarrow> state'
      | Inl e \<Rightarrow>
          state\<lparr>combined_agent_results := None,
                snowflake_results := Present [],
                rag_results := Present [],
                fallback_used := Some True,
                fallback_message := Some PRIMARY_ERROR_MESSAGE\<rparr>)"

text \<open>The marker starts with the cross mark U+274C, three bytes in UTF-8.\<close>

definition NO_VALID_DATA :: string where
  "NO_VALID_DATA = CHR 0xE2 # CHR 0x9D # CHR 0x8C # '' No valid data found''"

text \<open>The node returns \<open>{"should_fallback": ...}\<close>; the value is the result here.\<close>

definition check_results_node :: "'r RecommendationState \<Rightarrow> bool" where
  "check_results_node state =
     (let no_data = (\<not> truthy_list (snowflake_results state) \<and> \<not> truthy_list (rag_results state));
          combined_empty =
            (case combined_agent_results state of
               None \<Rightarrow> False
             | Some t \<Rightarrow> t \<noteq> [] \<and> str_in NO_VALID_DATA t)
      in no_data \<or> combined_empty)"

definition WEB_FALLBACK_MESSAGE :: string where
  "WEB_FALLBACK_MESSAGE =
     ''We're using web search results as a fallback since we couldn't find relevant information in our databases.''"

definition query_web_node ::
  "'r services \<Rightarrow> 'r RecommendationState \<Rightarrow> call list \<times> 'r RecommendationState" where
  "query_web_node env state =
     ([WebSearch (user_query state)],
      case recommend env (user_query state) of
        Inr result \<Rightarrow>
          (let formatted_results =
                 [\<lparr>wr_text = response result,
                   wr_metadata = \<lparr>source = ''web_search_fallback'',
                                  results_analyzed = wr_results_analyzed result\<rparr>\<rparr>]
           in state\<lparr>web_results := formatted_results,
                    fallback_used := Some True,
                    fallback_message := Some WEB_FALLBACK_MESSAGE\<rparr>)
      | Inl e \<Rightarrow> state\<lparr>web_results := [], fallback_used := Some False\<rparr>)"

definition compile_output :: "'r RecommendationState \<Rightarrow> (string \<rightharpoonup> 'r pyval)" where
  "compile_output state =
     (let output = [''query'' \<mapsto> PStr (user_query state),
                    ''combined_output'' \<mapsto> opt_str (combined_agent_results state),
                    ''snowflake'' \<mapsto> PRows (get_field (snowflake_results state) []),
                    ''rag'' \<mapsto> PRows (get_field (rag_results state) [])]
      in if truthy_bool (fallback_used state)
         then output ++ [''web'' \<mapsto> PWeb (web_results state),
                         ''fallback_used'' \<mapsto> PBool True,
                         ''fallback_message'' \<mapsto> opt_str (fallback_message state)]
         else output ++ [''web'' \<mapsto> PWeb [],
                         ''fallback_used'' \<mapsto> PBool False])"

definition compile_results :: "'r RecommendationState \<Rightarrow> 'r RecommendationState" where
  "compile_results state = state\<lparr>final_output := Some (compile_output state)\<rparr>"

subsection \<open>The graph\<close>

datatype node = Detect_comparison | Gatekeeper | Combined_agent | Check_results | Web | Compile | END

text \<open>The three conditional edges.\<close>

definition after_detect_comparison :: "'r RecommendationState \<Rightarrow> node" where
  "after_detect_comparison state =
     (if get_field (is_comparison_query state) False then END else Gatekeeper)"

definition after_gatekeeper :: "'r RecommendationState \<Rightarrow> node" where
  "after_gatekeeper state =
     (if \<not> is_college_related state \<or> \<not> safety_check_passed state then END else Combined_agent)"

definition after_check_results :: "bool \<Rightarrow> node" where
  "after_check_results should_fallback = (if should_fallback then Web else Compile)"

definition rank :: "node \<Rightarrow> nat" where
  "rank n = (case n of Detect_comparison \<Rightarrow> 6 | Gatekeeper \<Rightarrow> 5 | Combined_agent \<Rightarrow> 4
             | Check_results \<Rightarrow> 3 | Web \<Rightarrow> 2 | Compile \<Rightarrow> 1 | END \<Rightarrow> 0)"

text \<open>A step's calls come before those of the rest of the run.\<close>

definition after_calls :: "call list \<Rightarrow> call list \<times> 'a \<Rightarrow> call list \<times> 'a" where
  "after_calls cs r = (cs @ fst r, snd r)"

text \<open>Running the graph from a node: the node's update is written to the state, then
  the edge is followed. \<open>should_fallback\<close> is not a key of the state; the edge out of
  \<open>check_results\<close> reads it from what the node has just returned.\<close>

function run_from ::
  "'r services \<Rightarrow> node \<Rightarrow> 'r RecommendationState \<Rightarrow> call list \<times> (error + 'r RecommendationState)" where
  "run_from env END state = ([], Inr state)"
| "run_from env Detect_comparison state =
     (let state' = detect_comparison_node state
      in run_from env (after_detect_comparison state') state')"
| "run_from env Gatekeeper state =
     (case check_prompt_node env state of
        (cs, Inl e) \<Rightarrow> (cs, Inl e)
      | (cs, Inr state') \<Rightarrow> after_calls cs (run_from env (after_gatekeeper state') state'))"
| "run_from env Combined_agent state =
     (case query_combined_agent_node env state of
        (cs, state') \<Rightarrow> after_calls cs (run_from env Check_results state'))"
| "run_from env Check_results state =
     (let should_fallback = check_results_node state
      in run_from env (after_check_results should_fallback) state)"
| "run_from env Web state =
     (case query_web_node env state of
        (cs, state') \<Rightarrow> after_calls cs (run_from env Compile state'))"
| "run_from env Compile state = run_from env END (compile_results state)"
  by pat_completeness auto
termination
  by (relation "measure (\<lambda>(env, n, state). rank n)")
     (auto simp: rank_def after_detect_comparison_def after_gatekeeper_def after_check_results_def)

text \<open>The state \<open>test_workflow\<close> starts from, and the invocation of the graph.\<close>

definition initial_state :: "string \<Rightarrow> 'r RecommendationState" where
  "initial_state query =
     \<lparr>user_query = query,
      is_college_related = False,
      is_comparison_query = Absent,
      safety_check_passed = False,
      combined_agent_results = None,
      snowflake_results = Present [],
      rag_results = Present [],
      web_results = [],
      final_output = None,
      early_response = None,
      fallback_used = Some False,
      fallback_message = None\<rparr>"

definition ainvoke ::
  "'r services \<Rightarrow> 'r RecommendationState \<Rightarrow> call list \<times> (error + 'r RecommendationState)" where
  "ainvoke env state = run_from env Detect_comparison state"

definition run :: "'r services \<Rightarrow> string \<Rightarrow> call list \<times> (error + 'r RecommendationState)" where
  "run env query = ainvoke env (initial_state query)"

text \<open>The module's \<open>__main__\<close> block invokes the graph on a state without the keys
  \<open>snowflake_results\<close> and \<open>rag_results\<close>.\<close>

definition main_initial_state :: "string \<Rightarrow> 'r RecommendationState" where
  "main_initial_state query =
     \<lparr>user_query = query,
      is_college_related = False,
      is_comparison_query = Absent,
      safety_check_passed = False,
      combined_agent_results = None,
      snowflake_results = Absent,
      rag_results = Absent,
      web_results = [],
      final_output = None,
      early_response = None,
      fallback_used = Some False,
      fallback_message = None\<rparr>"

definition without_results :: "'r RecommendationState \<Rightarrow> 'r RecommendationState" where
  "without_results state = state\<lparr>snowflake_results := Absent, rag_results := Absent\<rparr>"

subsection \<open>Reading a run\<close>

definition calls_of :: "call list \<times> (error + 'a) \<Rightarrow> call list" where
  "calls_of r = fst r"

definition state_of :: "call list \<times> (error + 'a) \<Rightarrow> 'a option" where
  "state_of r = (case snd r of Inl e \<Rightarrow> None | Inr state \<Rightarrow> Some state)"

definition raised :: "call list \<times> (error + 'a) \<Rightarrow> error option" where
  "raised r = (case snd r of Inl e \<Rightarrow> Some e | Inr state \<Rightarrow> None)"

text \<open>The value of a key of \<open>final_output\<close>, when the run ended with one.\<close>

definition output_key ::
  "call list \<times> (error + 'r RecommendationState) \<Rightarrow> string \<Rightarrow> 'r pyval option" where
  "output_key r k =
     (case state_of r of
        None \<Rightarrow> None
      | Some state \<Rightarrow> (case final_output state of None \<Rightarrow> None | Some out \<Rightarrow> out k))"

text \<open>Whether the query holds one of the comparison keywords, as
  \<open>detect_comparison_node\<close> decides it.\<close>

definition is_comparison :: "string \<Rightarrow> bool" where
  "is_comparison query = list_ex (\<lambda>keyword. str_in keyword (lower query)) comparison_keywords"

text \<open>Two sets of collaborators that answer one query alike.\<close>

definition same_responses :: "'r services \<Rightarrow> 'r services \<Rightarrow> string \<Rightarrow> bool" where
  "same_responses env env' query =
     (check_and_classify_query env query = check_and_classify_query env' query \<and>
      validate_and_compare env query = validate_and_compare env' query \<and>
      recommend env query = recommend env' query)"

text \<open>The state of \<open>run\<close> once a query has passed the comparison check, and once the
  classifier has accepted it.\<close>

definition detected :: "string \<Rightarrow> 'r RecommendationState" where
  "detected query = (initial_state query)\<lparr>is_comparison_query := Present False\<rparr>"

definition accepted :: "string \<Rightarrow> 'r RecommendationState" where
  "accepted query = (detected query)\<lparr>is_college_related := True, safety_check_passed := True\<rparr>"

subsection \<open>Scenarios\<close>

text \<open>The query of the module's own \<open>test_queries\<close>, and collaborators that give
  the same outcome for every query.\<close>

definition EXAMPLE_QUERY :: string where
  "EXAMPLE_QUERY = ''What MBA programs does Stanford offer for finance specialization?''"

text \<open>\<open>ranKing of MBA programs\<close>, its \<open>K\<close> the Kelvin sign U+212A.\<close>

definition KELVIN_QUERY :: string where
  "KELVIN_QUERY = ''ran'' @ [CHR 0xE2, CHR 0x84, CHR 0xAA] @ ''ing of MBA programs''"

type_synonym row = "(string \<times> string) list"

definition constant_services ::
  "error + classification \<Rightarrow> error + row primary_result \<Rightarrow> error + web_response \<Rightarrow> row services" where
  "constant_services c p w =
     \<lparr>check_and_classify_query = (\<lambda>query. c),
      validate_and_compare = (\<lambda>query. p),
      recommend = (\<lambda>query. w)\<rparr>"

definition college :: classification where
  "college = \<lparr>cl_is_college_related = True, cl_safety_check_passed = True,
              cl_context = ''college'', cl_response = Absent\<rparr>"

definition other_null_response :: classification where
  "other_null_response = \<lparr>cl_is_college_related = False, cl_safety_check_passed = True,
                          cl_context = ''other'', cl_response = Present None\<rparr>"

definition stanford_result :: "row primary_result" where
  "stanford_result =
     \<lparr>pr_combined_agent_results = Some ''Stanford GSB offers an MBA with finance electives.'',
      pr_snowflake_results = Present [[(''college'', ''Stanford'')]],
      pr_rag_results = Present []\<rparr>"

definition null_summary_result :: "row primary_result" where
  "null_summary_result = stanford_result\<lparr>pr_combined_agent_results := None\<rparr>"

definition web_answer :: web_response where
  "web_answer = \<lparr>response = ''Stanford GSB, per the web.'', wr_results_analyzed = 5\<rparr>"

definition all_up :: "row services" where
  "all_up = constant_services (Inr college) (Inr stanford_result) (Inr web_answer)"

definition classifier_down :: "row services" where
  "classifier_down = constant_services (Inl ServiceError) (Inr stanford_result) (Inr web_answer)"

definition primary_down :: "row services" where
  "primary_down = constant_services (Inr college) (Inl ServiceError) (Inr web_answer)"

definition both_down :: "row services" where
  "both_down = constant_services (Inr college) (Inl ServiceError) (Inl ServiceError)"

definition null_summary :: "row services" where
  "null_summary = constant_services (Inr college) (Inr null_summary_result) (Inr web_answer)"

definition null_response :: "row services" where
  "null_response = constant_services (Inr other_null_response) (Inr stanford_result) (Inr web_answer)"

text \<open>Collaborators that answer \<open>EXAMPLE_QUERY\<close> as \<open>all_up\<close> does and raise on
  every other query.\<close>

definition only_example :: "row services" where
  "only_example =
     \<lparr>check_and_classify_query =
        (\<lambda>query. if query = EXAMPLE_QUERY then Inr college else Inl ServiceError),
      validate_and_compare =
        (\<lambda>query. if query = EXAMPLE_QUERY then Inr stanford_result else Inl ServiceError),
      recommend =
        (\<lambda>query. if query = EXAMPLE_QUERY then Inr web_answer else Inl ServiceError)\<rparr>"

section \<open>Properties\<close>

subsection \<open>The graph, node by node\<close>

lemma run_from_Compile:
  "run_from env Compile state = ([], Inr (compile_results state))"
  by simp

lemma run_from_Web:
  "run_from env Web state =
     ([WebSearch (user_query state)], Inr (compile_results (snd (query_web_node env state))))"
  by (simp add: query_web_node_def after_calls_def)

lemma run_from_Check_results:
  "run_from env Check_results state =
     (if check_results_node state
      then ([WebSearch (user_query state)], Inr (compile_results (snd (query_web_node env state))))
      else ([], Inr (compile_results state)))"
  by (simp add: after_check_results_def query_web_node_def after_calls_def)

lemma run_from_Combined_agent:
  "run_from env Combined_agent state =
     after_calls [Retrieve (user_query state)]
       (run_from env Check_results (snd (query_combined_agent_node env state)))"
  by (simp add: query_combined_agent_node_def)

lemma run_from_Gatekeeper:
  "run_from env Gatekeeper state =
     (case check_prompt_node env state of
        (cs, Inl e) \<Rightarrow> (cs, Inl e)
      | (cs, Inr state') \<Rightarrow>
          if \<not> is_college_related state' \<or> \<not> safety_check_passed state'
          then (cs, Inr state')
          else after_calls cs (run_from env Combined_agent state'))"
  by (simp add: after_gatekeeper_def after_calls_def split: prod.split sum.split)

lemma run_from_Detect_comparison:
  "run_from env Detect_comparison state =
     (let state' = detect_comparison_node state
      in if get_field (is_comparison_query state') False then ([], Inr state')
         else run_from env Gatekeeper state')"
  by (simp add: after_detect_comparison_def Let_def)

text \<open>From here on the graph is unfolded through the lemmas above only.\<close>

declare run_from.simps [simp del]

subsection \<open>What the nodes write\<close>

lemma detect_comparison_node_eq:
  "detect_comparison_node state =
     state\<lparr>is_comparison_query := Present (is_comparison (user_query state)),
           early_response := (if is_comparison (user_query state) then Some COMPARISON_RESPONSE else None)\<rparr>"
  by (simp add: detect_comparison_node_def is_comparison_def Let_def)

lemma query_combined_agent_node_raises:
  "validate_and_compare env (user_query state) = Inl e \<Longrightarrow>
   query_combined_agent_node env state =
     ([Retrieve (user_query state)],
      state\<lparr>combined_agent_results := None, snowflake_results := Present [],
            rag_results := Present [], fallback_used := Some True,
            fallback_message := Some PRIMARY_ERROR_MESSAGE\<rparr>)"
  by (simp add: query_combined_agent_node_def query_combined_agent_try_def)

lemma query_combined_agent_node_returns:
  "validate_and_compare env (user_query state) = Inr result \<Longrightarrow>
   pr_combined_agent_results result = Some t \<Longrightarrow>
   query_combined_agent_node env state =
     ([Retrieve (user_query state)],
      state\<lparr>combined_agent_results := Some t,
            snowflake_results := Present (get_field (pr_snowflake_results result) []),
            rag_results := Present (get_field (pr_rag_results result) []),
            fallback_used := Some False\<rparr>)"
  by (simp add: query_combined_agent_node_def query_combined_agent_try_def)

lemma query_combined_agent_node_null:
  "validate_and_compare env (user_query state) = Inr result \<Longrightarrow>
   pr_combined_agent_results result = None \<Longrightarrow>
   query_combined_agent_node env state =
     ([Retrieve (user_query state)],
      state\<lparr>combined_agent_results := None, snowflake_results := Present [],
            rag_results := Present [], fallback_used := Some True,
            fallback_message := Some PRIMARY_ERROR_MESSAGE\<rparr>)"
  by (simp add: query_combined_agent_node_def query_combined_agent_try_def)

lemma user_query_query_combined_agent_node [simp]:
  "user_query (snd (query_combined_agent_node env state)) = user_query state"
  by (simp add: query_combined_agent_node_def query_combined_agent_try_def
        split: sum.split option.split)

lemma early_response_query_combined_agent_node [simp]:
  "early_response (snd (query_combined_agent_node env state)) = early_response state"
  by (simp add: query_combined_agent_node_def query_combined_agent_try_def
        split: sum.split option.split)

lemma fallback_used_query_combined_agent_node:
  "\<not> check_results_node (snd (query_combined_agent_node env state)) \<Longrightarrow>
   fallback_used (snd (query_combined_agent_node env state)) = Some False"
  by (auto simp: query_combined_agent_node_def query_combined_agent_try_def
        check_results_node_def split: sum.splits option.splits)

lemma fallback_used_query_web_node:
  "fallback_used (snd (query_web_node env state)) = Some True \<longleftrightarrow>
     (\<exists>result. recommend env (user_query state) = Inr result)"
  by (auto simp: query_web_node_def split: sum.splits)

lemma early_response_query_web_node [simp]:
  "early_response (snd (query_web_node env state)) = early_response state"
  by (simp add: query_web_node_def split: sum.split)

lemma compile_results_fields [simp]:
  "early_response (compile_results state) = early_response state"
  "fallback_used (compile_results state) = fallback_used state"
  "final_output (compile_results state) = Some (compile_output state)"
  by (simp_all add: compile_results_def)

lemma user_query_check_prompt_node:
  "check_prompt_node env state = (cs, Inr state') \<Longrightarrow> user_query state' = user_query state"
  by (auto simp: check_prompt_node_def split: if_splits sum.splits)

lemma check_results_node_iff:
  "check_results_node state \<longleftrightarrow>
     (get_field (snowflake_results state) [] = [] \<and> get_field (rag_results state) [] = []) \<or>
     (\<exists>t. combined_agent_results state = Some t \<and> str_in NO_VALID_DATA t)"
proof -
  have empty: "\<not> truthy_list xs \<longleftrightarrow> get_field xs [] = []" for xs :: "'a list entry"
    by (cases xs) simp_all
  have marker: "\<not> str_in NO_VALID_DATA []"
    by (simp add: str_in_def NO_VALID_DATA_def)
  show ?thesis
    using marker by (auto simp: check_results_node_def empty split: option.splits)
qed

text \<open>The graph from \<open>combined_agent\<close> to its end.\<close>

lemma run_from_Combined_agent_eq:
  "run_from env Combined_agent state =
     (if check_results_node (snd (query_combined_agent_node env state))
      then ([Retrieve (user_query state), WebSearch (user_query state)],
            Inr (compile_results
                   (snd (query_web_node env (snd (query_combined_agent_node env state))))))
      else ([Retrieve (user_query state)],
            Inr (compile_results (snd (query_combined_agent_node env state)))))"
  by (simp add: run_from_Combined_agent run_from_Check_results after_calls_def)

subsection \<open>The paths of a run\<close>

lemma user_query_detected [simp]: "user_query (detected query) = query"
  by (simp add: detected_def initial_state_def)

lemma user_query_accepted [simp]: "user_query (accepted query) = query"
  by (simp add: accepted_def detected_def initial_state_def)

lemma run_comparison:
  "is_comparison query \<Longrightarrow>
   run env query =
     ([], Inr ((initial_state query)\<lparr>is_comparison_query := Present True,
                                      early_response := Some COMPARISON_RESPONSE\<rparr>))"
  by (simp add: run_def ainvoke_def run_from_Detect_comparison detect_comparison_node_eq
        initial_state_def)

lemma run_not_comparison:
  "\<not> is_comparison query \<Longrightarrow> run env query = run_from env Gatekeeper (detected query)"
  by (simp add: run_def ainvoke_def run_from_Detect_comparison detect_comparison_node_eq
        initial_state_def detected_def)

lemma run_classifier_raises:
  "\<not> is_comparison query \<Longrightarrow> check_and_classify_query env query = Inl e \<Longrightarrow>
   run env query = ([Classify query], Inl e)"
  by (simp add: run_not_comparison run_from_Gatekeeper check_prompt_node_def detected_def
        initial_state_def)

lemma run_rejected:
  "\<not> is_comparison query \<Longrightarrow> check_and_classify_query env query = Inr c \<Longrightarrow>
   cl_context c \<noteq> ''college'' \<Longrightarrow>
   run env query =
     ([Classify query],
      Inr ((detected query)\<lparr>safety_check_passed := cl_safety_check_passed c,
                            early_response := get_field (cl_response c) (Some REJECTION_RESPONSE)\<rparr>))"
  by (simp add: run_not_comparison run_from_Gatekeeper check_prompt_node_def detected_def
        initial_state_def)

lemma run_accepted:
  "\<not> is_comparison query \<Longrightarrow> check_and_classify_query env query = Inr c \<Longrightarrow>
   cl_context c = ''college'' \<Longrightarrow>
   run env query =
     after_calls [Classify query] (run_from env Combined_agent (accepted query))"
  by (simp add: run_not_comparison run_from_Gatekeeper check_prompt_node_def detected_def
        accepted_def initial_state_def)

lemma run_primary_raises:
  assumes "\<not> is_comparison query" and "check_and_classify_query env query = Inr c"
    and "cl_context c = ''college''" and "validate_and_compare env query = Inl e"
  shows "run env query =
     ([Classify query, Retrieve query, WebSearch query],
      Inr (compile_results (snd (query_web_node env
        ((accepted query)\<lparr>combined_agent_results := None, snowflake_results := Present [],
            rag_results := Present [], fallback_used := Some True,
            fallback_message := Some PRIMARY_ERROR_MESSAGE\<rparr>)))))"
proof -
  let ?failed = "(accepted query)\<lparr>combined_agent_results := None, snowflake_results := Present [],
            rag_results := Present [], fallback_used := Some True,
            fallback_message := Some PRIMARY_ERROR_MESSAGE\<rparr>"
  have node: "snd (query_combined_agent_node env (accepted query)) = ?failed"
    using assms(4) by (simp add: query_combined_agent_node_raises)
  have "check_results_node ?failed"
    by (simp add: check_results_node_def)
  with node assms(1-3) show ?thesis
    by (simp add: run_accepted run_from_Combined_agent_eq after_calls_def)
qed

text \<open>A run that returns a state took one of four paths.\<close>

lemma run_returns_cases:
  assumes "run env query = (cs, Inr state)"
  obtains
    (comparison) "is_comparison query" "cs = []"
      "state = (initial_state query)\<lparr>is_comparison_query := Present True,
                                      early_response := Some COMPARISON_RESPONSE\<rparr>"
  | (rejected) c where "\<not> is_comparison query"
      "check_and_classify_query env query = Inr c" "cl_context c \<noteq> ''college''"
      "cs = [Classify query]"
      "state = (detected query)\<lparr>safety_check_passed := cl_safety_check_passed c,
                 early_response := get_field (cl_response c) (Some REJECTION_RESPONSE)\<rparr>"
  | (web) c where "\<not> is_comparison query"
      "check_and_classify_query env query = Inr c" "cl_context c = ''college''"
      "check_results_node (snd (query_combined_agent_node env (accepted query)))"
      "cs = [Classify query, Retrieve query, WebSearch query]"
      "state = compile_results
                 (snd (query_web_node env (snd (query_combined_agent_node env (accepted query)))))"
  | (primary) c where "\<not> is_comparison query"
      "check_and_classify_query env query = Inr c" "cl_context c = ''college''"
      "\<not> check_results_node (snd (query_combined_agent_node env (accepted query)))"
      "cs = [Classify query, Retrieve query]"
      "state = compile_results (snd (query_combined_agent_node env (accepted query)))"
proof (cases "is_comparison query")
  case True
  with assms comparison show ?thesis
    by (simp add: run_comparison)
next
  case False
  show ?thesis
  proof (cases "check_and_classify_query env query")
    case (Inl e)
    with False assms show ?thesis
      by (simp add: run_classifier_raises)
  next
    case (Inr c)
    have q: "user_query (accepted query :: 'a RecommendationState) = query"
      by (simp add: accepted_def detected_def initial_state_def)
    show ?thesis
    proof (cases "cl_context c = ''college''")
      case college: True
      from False Inr college assms
      have tail: "after_calls [Classify query] (run_from env Combined_agent (accepted query))
                    = (cs, Inr state)"
        by (simp add: run_accepted)
      show ?thesis
      proof (cases "check_results_node (snd (query_combined_agent_node env (accepted query)))")
        case True
        with tail q have "cs = [Classify query, Retrieve query, WebSearch query]"
          "state = compile_results
                 (snd (query_web_node env (snd (query_combined_agent_node env (accepted query)))))"
          by (auto simp: run_from_Combined_agent_eq after_calls_def)
        with web False Inr college True show ?thesis by blast
      next
        case nofb: False
        with tail q have "cs = [Classify query, Retrieve query]"
          "state = compile_results (snd (query_combined_agent_node env (accepted query)))"
          by (auto simp: run_from_Combined_agent_eq after_calls_def)
        with primary False Inr college nofb show ?thesis by blast
      qed
    next
      case other: False
      with False Inr assms rejected show ?thesis
        by (simp add: run_rejected)
    qed
  qed
qed

subsection \<open>The two initial states\<close>

text \<open>Invoked on the state of \<open>__main__\<close>, the graph makes the same calls and returns
  the same state as \<open>run\<close>, but for the two result keys, which stay missing when
  the run ends before the primary retrieval.\<close>

lemma query_combined_agent_node_without_results:
  "query_combined_agent_node env (without_results state) = query_combined_agent_node env state"
  by (simp add: query_combined_agent_node_def query_combined_agent_try_def without_results_def
        split: sum.split option.split)

lemma check_prompt_node_without_results:
  "check_prompt_node env (without_results state) =
     (case check_prompt_node env state of
        (cs, Inl e) \<Rightarrow> (cs, Inl e)
      | (cs, Inr state') \<Rightarrow> (cs, Inr (without_results state')))"
  by (simp add: check_prompt_node_def without_results_def split: sum.split)

lemma run_from_Combined_agent_without_results:
  "run_from env Combined_agent (without_results state) = run_from env Combined_agent state"
  by (simp add: run_from_Combined_agent query_combined_agent_node_without_results)
     (simp add: without_results_def)

lemma final_output_check_prompt_node:
  "check_prompt_node env state = (cs, Inr state') \<Longrightarrow> final_output state' = final_output state"
  by (auto simp: check_prompt_node_def split: if_splits sum.splits)

lemma run_from_Gatekeeper_without_results:
  assumes "final_output state = None"
  shows "run_from env Gatekeeper (without_results state) =
     (case run_from env Gatekeeper state of
        (cs, Inl e) \<Rightarrow> (cs, Inl e)
      | (cs, Inr state') \<Rightarrow>
          (cs, Inr (if final_output state' = None then without_results state' else state')))"
proof (cases "check_prompt_node env state")
  case (Pair cs r)
  show ?thesis
  proof (cases r)
    case (Inl e)
    with Pair show ?thesis
      by (simp add: run_from_Gatekeeper check_prompt_node_without_results)
  next
    case (Inr state')
    with Pair assms have none: "final_output state' = None"
      by (simp add: final_output_check_prompt_node)
    have gates: "is_college_related (without_results state') = is_college_related state'"
      "safety_check_passed (without_results state') = safety_check_passed state'"
      by (simp_all add: without_results_def)
    show ?thesis
    proof (cases "\<not> is_college_related state' \<or> \<not> safety_check_passed state'")
      case True
      with Pair Inr none gates show ?thesis
        by (simp add: run_from_Gatekeeper check_prompt_node_without_results)
    next
      case False
      with Pair Inr gates show ?thesis
        by (simp add: run_from_Gatekeeper check_prompt_node_without_results
              run_from_Combined_agent_without_results)
           (simp add: run_from_Combined_agent_eq after_calls_def)
    qed
  qed
qed

lemma ainvoke_main_initial_state:
  "ainvoke env (main_initial_state query) =
     (case run env query of
        (cs, Inl e) \<Rightarrow> (cs, Inl e)
      | (cs, Inr state) \<Rightarrow>
          (cs, Inr (if final_output state = None then without_results state else state)))"
proof -
  have start: "main_initial_state query = without_results (initial_state query :: 'r RecommendationState)"
    by (simp add: main_initial_state_def initial_state_def without_results_def)
  show ?thesis
  proof (cases "is_comparison query")
    case True
    then show ?thesis
      by (simp add: run_comparison ainvoke_def start run_from_Detect_comparison
            detect_comparison_node_eq without_results_def initial_state_def)
  next
    case False
    have "final_output (detected query :: 'r RecommendationState) = None"
      by (simp add: detected_def initial_state_def)
    then have "run_from env Gatekeeper (without_results (detected query)) =
            (case run_from env Gatekeeper (detected query) of
               (cs, Inl e) \<Rightarrow> (cs, Inl e)
             | (cs, Inr state) \<Rightarrow>
                 (cs, Inr (if final_output state = None then without_results state else state)))"
      by (rule run_from_Gatekeeper_without_results)
    moreover have "ainvoke env (main_initial_state query)
                     = run_from env Gatekeeper (without_results (detected query))"
      using False
      by (simp add: ainvoke_def start run_from_Detect_comparison detect_comparison_node_eq
            without_results_def detected_def initial_state_def)
    ultimately show ?thesis
      using False by (simp add: run_not_comparison)
  qed
qed

subsection \<open>Collaborators that answer one query alike\<close>

lemma check_prompt_node_same:
  "same_responses env env' (user_query state) \<Longrightarrow>
   check_prompt_node env state = check_prompt_node env' state"
  by (simp add: check_prompt_node_def same_responses_def)

lemma query_combined_agent_node_same:
  "same_responses env env' (user_query state) \<Longrightarrow>
   query_combined_agent_node env state = query_combined_agent_node env' state"
  by (simp add: query_combined_agent_node_def query_combined_agent_try_def same_responses_def)

lemma query_web_node_same:
  "same_responses env env' (user_query state) \<Longrightarrow>
   query_web_node env state = query_web_node env' state"
  by (simp add: query_web_node_def same_responses_def)

lemma run_from_Combined_agent_same:
  assumes "same_responses env env' (user_query state)"
  shows "run_from env Combined_agent state = run_from env' Combined_agent state"
proof -
  let ?next = "snd (query_combined_agent_node env' state)"
  have "same_responses env env' (user_query ?next)"
    using assms by simp
  then have "query_web_node env ?next = query_web_node env' ?next"
    by (rule query_web_node_same)
  then show ?thesis
    by (simp add: run_from_Combined_agent_eq query_combined_agent_node_same [OF assms])
qed

lemma run_from_Gatekeeper_same:
  assumes "same_responses env env' (user_query state)"
  shows "run_from env Gatekeeper state = run_from env' Gatekeeper state"
proof (cases "check_prompt_node env' state")
  case (Pair cs r)
  show ?thesis
  proof (cases r)
    case (Inl e)
    with Pair show ?thesis
      by (simp add: run_from_Gatekeeper check_prompt_node_same [OF assms])
  next
    case (Inr state')
    with Pair have "user_query state' = user_query state"
      by (simp add: user_query_check_prompt_node)
    with assms have "run_from env Combined_agent state' = run_from env' Combined_agent state'"
      by (simp add: run_from_Combined_agent_same)
    with Pair Inr show ?thesis
      by (simp add: run_from_Gatekeeper check_prompt_node_same [OF assms])
  qed
qed

subsection \<open>The scenarios\<close>

lemmas scenario_defs =
  constant_services_def college_def other_null_response_def stanford_result_def
  null_summary_result_def web_answer_def all_up_def classifier_down_def primary_down_def
  both_down_def null_summary_def null_response_def

lemma example_not_comparison: "\<not> is_comparison EXAMPLE_QUERY"
  by code_simp

text \<open>The Kelvin sign lowers to \<open>k\<close> and completes a keyword; the dotted capital I
  lowers to \<open>i\<close> and a combining dot, which keeps a keyword apart.\<close>

lemma kelvin_is_comparison: "is_comparison KELVIN_QUERY"
  by code_simp

lemma dotted_I_not_comparison:
  "lower (''d'' @ [CHR 0xC4, CHR 0xB0] @ ''fference'') = ''di'' @ [CHR 0xCC, CHR 0x87] @ ''fference'' \<and>
   \<not> is_comparison (''d'' @ [CHR 0xC4, CHR 0xB0] @ ''fference'')"
  by code_simp

lemma run_all_up:
  "run all_up EXAMPLE_QUERY =
     ([Classify EXAMPLE_QUERY, Retrieve EXAMPLE_QUERY],
      Inr (compile_results
        ((accepted EXAMPLE_QUERY)
           \<lparr>combined_agent_results := Some ''Stanford GSB offers an MBA with finance electives.'',
            snowflake_results := Present [[(''college'', ''Stanford'')]],
            rag_results := Present [],
            fallback_used := Some False\<rparr>)))"
proof -
  have c: "check_and_classify_query all_up EXAMPLE_QUERY = Inr college"
    by (simp add: all_up_def constant_services_def)
  have k: "cl_context college = ''college''"
    by (simp add: college_def)
  have node: "snd (query_combined_agent_node all_up (accepted EXAMPLE_QUERY)) =
      (accepted EXAMPLE_QUERY)
           \<lparr>combined_agent_results := Some ''Stanford GSB offers an MBA with finance electives.'',
            snowflake_results := Present [[(''college'', ''Stanford'')]],
            rag_results := Present [],
            fallback_used := Some False\<rparr>"
    by (simp add: query_combined_agent_node_def query_combined_agent_try_def scenario_defs)
  have "\<not> str_in NO_VALID_DATA ''Stanford GSB offers an MBA with finance electives.''"
    by (simp add: str_in_def NO_VALID_DATA_def sublist_code)
  then have "\<not> check_results_node (snd (query_combined_agent_node all_up (accepted EXAMPLE_QUERY)))"
    unfolding node by (simp add: check_results_node_def)
  then show ?thesis
    using node
    by (simp add: run_accepted [OF example_not_comparison c k] run_from_Combined_agent_eq
          after_calls_def)
qed

lemma run_primary_down:
  "run primary_down EXAMPLE_QUERY =
     ([Classify EXAMPLE_QUERY, Retrieve EXAMPLE_QUERY, WebSearch EXAMPLE_QUERY],
      Inr (compile_results (snd (query_web_node primary_down
        ((accepted EXAMPLE_QUERY)\<lparr>combined_agent_results := None,
            snowflake_results := Present [], rag_results := Present [],
            fallback_used := Some True,
            fallback_message := Some PRIMARY_ERROR_MESSAGE\<rparr>)))))"
proof -
  have c: "check_and_classify_query primary_down EXAMPLE_QUERY = Inr college"
    and p: "validate_and_compare primary_down EXAMPLE_QUERY = Inl ServiceError"
    by (simp_all add: primary_down_def constant_services_def)
  have k: "cl_context college = ''college''"
    by (simp add: college_def)
  show ?thesis
    by (rule run_primary_raises [OF example_not_comparison c k p])
qed

subsection \<open>Where the primary retrieval and the result invariant hold\<close>

text \<open>
  What \<open>query_combined_agent_node\<close> does when \<open>validate_and_compare\<close> raises, and
  when it returns a response whose combined text is a string.
\<close>

lemma primary_retrieval_outcomes:
  "(validate_and_compare env (user_query state) = Inl e \<longrightarrow>
      query_combined_agent_node env state =
        ([Retrieve (user_query state)],
         state\<lparr>combined_agent_results := None, snowflake_results := Present [],
               rag_results := Present [], fallback_used := Some True,
               fallback_message := Some PRIMARY_ERROR_MESSAGE\<rparr>) \<and>
      check_results_node (snd (query_combined_agent_node env state)) \<and>
      calls_of (run_from env Combined_agent state)
        = [Retrieve (user_query state), WebSearch (user_query state)]) \<and>
   (validate_and_compare env (user_query state) = Inr result \<and>
    pr_combined_agent_results result = Some t \<longrightarrow>
      query_combined_agent_node env state =
        ([Retrieve (user_query state)],
         state\<lparr>combined_agent_results := Some t,
               snowflake_results := Present (get_field (pr_snowflake_results result) []),
               rag_results := Present (get_field (pr_rag_results result) []),
               fallback_used := Some False\<rparr>))"
proof (intro conjI impI)
  assume raises: "validate_and_compare env (user_query state) = Inl e"
  let ?failed = "state\<lparr>combined_agent_results := None, snowflake_results := Present [],
                       rag_results := Present [], fallback_used := Some True,
                       fallback_message := Some PRIMARY_ERROR_MESSAGE\<rparr>"
  from raises show node:
    "query_combined_agent_node env state = ([Retrieve (user_query state)], ?failed)"
    by (rule query_combined_agent_node_raises)
  have check: "check_results_node ?failed"
    by (simp add: check_results_node_def)
  with node show "check_results_node (snd (query_combined_agent_node env state))"
    by simp
  from node check
  show "calls_of (run_from env Combined_agent state)
          = [Retrieve (user_query state), WebSearch (user_query state)]"
    by (simp add: run_from_Combined_agent run_from_Check_results after_calls_def calls_of_def)
next
  assume "validate_and_compare env (user_query state) = Inr result \<and>
          pr_combined_agent_results result = Some t"
  then show "query_combined_agent_node env state =
        ([Retrieve (user_query state)],
         state\<lparr>combined_agent_results := Some t,
               snowflake_results := Present (get_field (pr_snowflake_results result) []),
               rag_results := Present (get_field (pr_rag_results result) []),
               fallback_used := Some False\<rparr>)"
    by (simp add: query_combined_agent_node_returns)
qed

text \<open>
  Exactly one of \<open>early_response\<close> and \<open>final_output\<close> is set in the state a run
  returns, unless the classifier has rejected the query with \<open>response\<close> present and
  \<open>None\<close>; \<open>final_output\<close> is set exactly on the runs that went through the
  primary retrieval.
\<close>

lemma exactly_one_result:
  assumes "run env query = (cs, Inr state)"
    and "\<forall>c. check_and_classify_query env query = Inr c \<and> cl_context c \<noteq> ''college''
           \<longrightarrow> cl_response c \<noteq> Present None"
  shows "(early_response state = None) \<noteq> (final_output state = None) \<and>
         (final_output state = None \<longleftrightarrow> Retrieve query \<notin> set cs)"
  using assms(1)
proof (cases rule: run_returns_cases)
  case comparison
  then show ?thesis by (simp add: initial_state_def)
next
  case (rejected c)
  with assms(2) have "cl_response c \<noteq> Present None" by simp
  then have "get_field (cl_response c) (Some REJECTION_RESPONSE) \<noteq> None"
    by (cases "cl_response c") auto
  with rejected show ?thesis by (simp add: detected_def initial_state_def)
next
  case (web c)
  then show ?thesis by (simp add: accepted_def detected_def initial_state_def)
next
  case (primary c)
  then show ?thesis by (simp add: accepted_def detected_def initial_state_def)
qed

section \<open>The claims\<close>

subsection \<open>C1: a failure of the classifier\<close>

text \<open>
  C1 says that \<open>run\<close> returns a result whatever the classifier does, a failure of the
  classifier being answered with an early rejection. \<open>check_prompt_node\<close> calls the
  classifier outside any \<open>try\<close>, unlike the two retrieval nodes. On the example query,
  with a classifier that raises, the run makes that one call and ends with the error: no
  state is returned, so there is no \<open>early_response\<close>.
\<close>

theorem classifier_error_leaves_run:
  "calls_of (run classifier_down EXAMPLE_QUERY) = [Classify EXAMPLE_QUERY] \<and>
   raised (run classifier_down EXAMPLE_QUERY) = Some ServiceError \<and>
   state_of (run classifier_down EXAMPLE_QUERY) = None"
proof -
  have "check_and_classify_query classifier_down EXAMPLE_QUERY = Inl ServiceError"
    by (simp add: classifier_down_def constant_services_def)
  with example_not_comparison
  have "run classifier_down EXAMPLE_QUERY = ([Classify EXAMPLE_QUERY], Inl ServiceError)"
    by (rule run_classifier_raises)
  then show ?thesis
    by (simp add: calls_of_def raised_def state_of_def)
qed

subsection \<open>C2: the adequacy check\<close>

text \<open>
  C2. \<open>check_results_node\<close> answers \<open>should_fallback = True\<close> exactly when both
  result lists are empty or the combined text is there and holds the marker
  \<open>NO_VALID_DATA\<close>. In particular, from a state with a non-empty result list and no
  marker the answer is \<open>False\<close> and the graph goes from \<open>check_results\<close>
  straight to \<open>compile\<close>: no call is made, so the web search is not invoked.
\<close>

theorem check_results_should_fallback:
  "(check_results_node state \<longleftrightarrow>
      (get_field (snowflake_results state) [] = [] \<and> get_field (rag_results state) [] = []) \<or>
      (\<exists>t. combined_agent_results state = Some t \<and> str_in NO_VALID_DATA t)) \<and>
   ((get_field (snowflake_results state) [] \<noteq> [] \<or> get_field (rag_results state) [] \<noteq> []) \<and>
    (\<forall>t. combined_agent_results state = Some t \<longrightarrow> \<not> str_in NO_VALID_DATA t) \<longrightarrow>
      \<not> check_results_node state \<and>
      run_from env Check_results state = ([], Inr (compile_results state)))"
proof -
  have "run_from env Check_results state = ([], Inr (compile_results state))"
    if "\<not> check_results_node state"
    using that by (simp only: run_from_Check_results if_False)
  then show ?thesis
    using check_results_node_iff [of state] by blast
qed

text \<open>Witness for C2: the state the primary retrieval leaves in the scenario \<open>all_up\<close>.\<close>

theorem check_results_should_fallback_witness:
  "get_field (snowflake_results (snd (query_combined_agent_node all_up (accepted EXAMPLE_QUERY)))) []
     = [[(''college'', ''Stanford'')]] \<and>
   combined_agent_results (snd (query_combined_agent_node all_up (accepted EXAMPLE_QUERY)))
     = Some ''Stanford GSB offers an MBA with finance electives.'' \<and>
   \<not> str_in NO_VALID_DATA ''Stanford GSB offers an MBA with finance electives.'' \<and>
   \<not> check_results_node (snd (query_combined_agent_node all_up (accepted EXAMPLE_QUERY))) \<and>
   calls_of (run_from all_up Check_results
               (snd (query_combined_agent_node all_up (accepted EXAMPLE_QUERY)))) = []"
proof -
  let ?state = "snd (query_combined_agent_node all_up (accepted EXAMPLE_QUERY))"
  have rows: "get_field (snowflake_results ?state) [] = [[(''college'', ''Stanford'')]]"
    by (simp add: query_combined_agent_node_def query_combined_agent_try_def scenario_defs)
  have summary: "combined_agent_results ?state
                = Some ''Stanford GSB offers an MBA with finance electives.''"
    by (simp add: query_combined_agent_node_def query_combined_agent_try_def scenario_defs)
  have clean: "\<not> str_in NO_VALID_DATA ''Stanford GSB offers an MBA with finance electives.''"
    by (simp add: str_in_def NO_VALID_DATA_def sublist_code)
  have "\<not> check_results_node ?state \<and>
        run_from all_up Check_results ?state = ([], Inr (compile_results ?state))"
    using check_results_should_fallback [of ?state all_up] rows summary clean by simp
  with rows summary clean show ?thesis
    by (simp add: calls_of_def)
qed

subsection \<open>C3: comparison queries\<close>

text \<open>
  C3. When the lower-cased query holds one of the comparison keywords, \<open>run\<close> makes
  no call to any collaborator and returns a state whose \<open>early_response\<close> is the
  fixed comparison message and whose \<open>final_output\<close> is \<open>None\<close>.
\<close>

theorem comparison_query_exits_early:
  assumes "\<exists>keyword \<in> set comparison_keywords. str_in keyword (lower query)"
  shows "calls_of (run env query) = [] \<and>
         (\<exists>state. snd (run env query) = Inr state \<and>
                  early_response state = Some COMPARISON_RESPONSE \<and>
                  final_output state = None)"
proof -
  from assms have "is_comparison query"
    by (simp add: is_comparison_def list_ex_iff)
  then show ?thesis
    by (simp add: run_comparison calls_of_def initial_state_def)
qed

text \<open>Witness for C3: \<open>Stanford VS MIT\<close>, whose keyword is in upper case, and
  \<open>KELVIN_QUERY\<close>, whose keyword appears only once the Kelvin sign is lowered.\<close>

theorem comparison_query_exits_early_witness:
  "lower ''Stanford VS MIT'' = ''stanford vs mit'' \<and>
   str_in ''vs'' (lower ''Stanford VS MIT'') \<and>
   calls_of (run all_up ''Stanford VS MIT'') = [] \<and>
   map_option early_response (state_of (run all_up ''Stanford VS MIT''))
     = Some (Some COMPARISON_RESPONSE) \<and>
   map_option final_output (state_of (run all_up ''Stanford VS MIT'')) = Some None \<and>
   lower KELVIN_QUERY = ''ranking of mba programs'' \<and>
   str_in ''ranking'' (lower KELVIN_QUERY) \<and>
   calls_of (run all_up KELVIN_QUERY) = [] \<and>
   map_option early_response (state_of (run all_up KELVIN_QUERY))
     = Some (Some COMPARISON_RESPONSE) \<and>
   map_option final_output (state_of (run all_up KELVIN_QUERY)) = Some None"
proof -
  have folded: "lower ''Stanford VS MIT'' = ''stanford vs mit''"
    by (simp add: char_lower_def)
  have kelvin: "lower KELVIN_QUERY = ''ranking of mba programs''"
    by (simp add: KELVIN_QUERY_def char_lower_def)
  have vs: "str_in ''vs'' (lower ''Stanford VS MIT'')"
    unfolding folded by (simp add: str_in_def sublist_code)
  have ranking: "str_in ''ranking'' (lower KELVIN_QUERY)"
    unfolding kelvin by (simp add: str_in_def sublist_code)
  from vs have "\<exists>keyword \<in> set comparison_keywords. str_in keyword (lower ''Stanford VS MIT'')"
    by (simp add: comparison_keywords_def)
  from comparison_query_exits_early [OF this, of all_up]
  have first: "calls_of (run all_up ''Stanford VS MIT'') = []"
    "map_option early_response (state_of (run all_up ''Stanford VS MIT''))
       = Some (Some COMPARISON_RESPONSE)"
    "map_option final_output (state_of (run all_up ''Stanford VS MIT'')) = Some None"
    by (auto simp: state_of_def)
  from ranking have "\<exists>keyword \<in> set comparison_keywords. str_in keyword (lower KELVIN_QUERY)"
    by (simp add: comparison_keywords_def)
  from comparison_query_exits_early [OF this, of all_up]
  have second: "calls_of (run all_up KELVIN_QUERY) = []"
    "map_option early_response (state_of (run all_up KELVIN_QUERY))
       = Some (Some COMPARISON_RESPONSE)"
    "map_option final_output (state_of (run all_up KELVIN_QUERY)) = Some None"
    by (auto simp: state_of_def)
  from folded kelvin vs ranking first second show ?thesis
    by simp
qed

subsection \<open>C4: the primary retrieval\<close>

text \<open>
  C4 says that whenever \<open>validate_and_compare\<close> returns,
  \<open>query_combined_agent_node\<close> stores the combined text and both result lists and
  sets \<open>fallback_used\<close> to \<open>False\<close>. The node does so for a response whose
  combined text is a string (\<open>primary_retrieval_outcomes\<close>), and the rest of the
  graph takes a combined text that is \<open>None\<close>. But for a response whose combined text
  is \<open>None\<close>, \<open>len(None)\<close> in the node's progress report raises inside the
  \<open>try\<close>: in the scenario \<open>null_summary\<close> the service has returned a Snowflake
  row, and the node takes the \<open>except\<close> branch, drops the row, sets
  \<open>fallback_used\<close> to \<open>True\<close> and \<open>fallback_message\<close> to the error text,
  and the run goes on to the web search.
\<close>

theorem null_summary_taken_as_failure:
  "validate_and_compare null_summary EXAMPLE_QUERY = Inr null_summary_result \<and>
   pr_snowflake_results null_summary_result = Present [[(''college'', ''Stanford'')]] \<and>
   query_combined_agent_node null_summary (accepted EXAMPLE_QUERY) =
     ([Retrieve EXAMPLE_QUERY],
      (accepted EXAMPLE_QUERY)
        \<lparr>combined_agent_results := None, snowflake_results := Present [],
         rag_results := Present [], fallback_used := Some True,
         fallback_message := Some PRIMARY_ERROR_MESSAGE\<rparr>) \<and>
   calls_of (run null_summary EXAMPLE_QUERY)
     = [Classify EXAMPLE_QUERY, Retrieve EXAMPLE_QUERY, WebSearch EXAMPLE_QUERY] \<and>
   output_key (run null_summary EXAMPLE_QUERY) ''snowflake'' = Some (PRows [])"
proof -
  let ?failed = "(accepted EXAMPLE_QUERY)
        \<lparr>combined_agent_results := None, snowflake_results := Present [],
         rag_results := Present [], fallback_used := Some True,
         fallback_message := Some PRIMARY_ERROR_MESSAGE\<rparr> :: row RecommendationState"
  have c: "check_and_classify_query null_summary EXAMPLE_QUERY = Inr college"
    and p: "validate_and_compare null_summary EXAMPLE_QUERY = Inr null_summary_result"
    and w: "recommend null_summary EXAMPLE_QUERY = Inr web_answer"
    by (simp_all add: null_summary_def constant_services_def)
  have k: "cl_context college = ''college''"
    by (simp add: college_def)
  have rows: "pr_snowflake_results null_summary_result = Present [[(''college'', ''Stanford'')]]"
    by (simp add: null_summary_result_def stanford_result_def)
  have null: "pr_combined_agent_results null_summary_result = None"
    by (simp add: null_summary_result_def)
  from p null
  have node: "query_combined_agent_node null_summary (accepted EXAMPLE_QUERY)
                = ([Retrieve EXAMPLE_QUERY], ?failed)"
    by (simp add: query_combined_agent_node_null)
  have "check_results_node ?failed"
    by (simp add: check_results_node_def)
  with node
  have r: "run null_summary EXAMPLE_QUERY =
             ([Classify EXAMPLE_QUERY, Retrieve EXAMPLE_QUERY, WebSearch EXAMPLE_QUERY],
              Inr (compile_results (snd (query_web_node null_summary ?failed))))"
    by (simp add: run_accepted [OF example_not_comparison c k] run_from_Combined_agent_eq
          after_calls_def)
  have "output_key (run null_summary EXAMPLE_QUERY) ''snowflake'' = Some (PRows [])"
    by (simp add: r output_key_def state_of_def query_web_node_def compile_output_def w)
  with p rows node r show ?thesis
    by (simp add: calls_of_def)
qed

subsection \<open>C5: the fallback retrieval\<close>

text \<open>
  C5. When \<open>recommend\<close> returns, \<open>query_web_node\<close> sets \<open>web_results\<close> to the
  one record built from the response, whose source is \<open>web_search_fallback\<close>, sets
  \<open>fallback_used\<close> to \<open>True\<close> and \<open>fallback_message\<close> to the fixed
  explanation. When it raises, the node sets \<open>web_results\<close> to the empty list and
  \<open>fallback_used\<close> to \<open>False\<close>.
\<close>

theorem query_web_node_outcomes:
  "(recommend env (user_query state) = Inr result \<longrightarrow>
      query_web_node env state =
        ([WebSearch (user_query state)],
         state\<lparr>web_results :=
                 [\<lparr>wr_text = response result,
                   wr_metadata = \<lparr>source = ''web_search_fallback'',
                                  results_analyzed = wr_results_analyzed result\<rparr>\<rparr>],
               fallback_used := Some True,
               fallback_message := Some WEB_FALLBACK_MESSAGE\<rparr>)) \<and>
   (recommend env (user_query state) = Inl e \<longrightarrow>
      query_web_node env state =
        ([WebSearch (user_query state)], state\<lparr>web_results := [], fallback_used := Some False\<rparr>))"
  by (simp add: query_web_node_def)

text \<open>Witness for C5: the scenarios \<open>all_up\<close> and \<open>both_down\<close>.\<close>

theorem query_web_node_outcomes_witness:
  "recommend all_up (user_query (accepted EXAMPLE_QUERY)) = Inr web_answer \<and>
   web_results (snd (query_web_node all_up (accepted EXAMPLE_QUERY)))
     = [\<lparr>wr_text = ''Stanford GSB, per the web.'',
         wr_metadata = \<lparr>source = ''web_search_fallback'', results_analyzed = 5\<rparr>\<rparr>] \<and>
   fallback_used (snd (query_web_node all_up (accepted EXAMPLE_QUERY))) = Some True \<and>
   fallback_message (snd (query_web_node all_up (accepted EXAMPLE_QUERY)))
     = Some WEB_FALLBACK_MESSAGE \<and>
   recommend both_down (user_query (accepted EXAMPLE_QUERY)) = Inl ServiceError \<and>
   web_results (snd (query_web_node both_down (accepted EXAMPLE_QUERY))) = [] \<and>
   fallback_used (snd (query_web_node both_down (accepted EXAMPLE_QUERY))) = Some False"
proof -
  have up: "recommend all_up (user_query (accepted EXAMPLE_QUERY)) = Inr web_answer"
    by (simp add: all_up_def constant_services_def)
  have down: "recommend both_down (user_query (accepted EXAMPLE_QUERY)) = Inl ServiceError"
    by (simp add: both_down_def constant_services_def)
  from query_web_node_outcomes [of all_up "accepted EXAMPLE_QUERY" web_answer ServiceError] up
  have found:
    "web_results (snd (query_web_node all_up (accepted EXAMPLE_QUERY)))
       = [\<lparr>wr_text = ''Stanford GSB, per the web.'',
           wr_metadata = \<lparr>source = ''web_search_fallback'', results_analyzed = 5\<rparr>\<rparr>]"
    "fallback_used (snd (query_web_node all_up (accepted EXAMPLE_QUERY))) = Some True"
    "fallback_message (snd (query_web_node all_up (accepted EXAMPLE_QUERY)))
       = Some WEB_FALLBACK_MESSAGE"
    by (simp_all add: web_answer_def)
  from query_web_node_outcomes [of both_down "accepted EXAMPLE_QUERY" web_answer ServiceError] down
  have lost:
    "web_results (snd (query_web_node both_down (accepted EXAMPLE_QUERY))) = []"
    "fallback_used (snd (query_web_node both_down (accepted EXAMPLE_QUERY))) = Some False"
    by simp_all
  from up down found lost show ?thesis
    by simp
qed

subsection \<open>C6: a failure of the primary retrieval, seen from the caller\<close>

text \<open>
  C6, as amended. For a query with no comparison keyword that the classifier accepts, and
  for which \<open>validate_and_compare\<close> raises, \<open>run\<close> calls the classifier, the
  primary retrieval and the web search, once each, and returns a \<open>final_output\<close>.
  When the web search returns, the output has \<open>fallback_used = True\<close>, the web
  search's own explanation as \<open>fallback_message\<close> and the one web record; when it
  raises, the output has \<open>fallback_used = False\<close>, no \<open>fallback_message\<close> and
  an empty \<open>web\<close>.
\<close>

theorem primary_error_reaches_web_search:
  assumes "\<not> is_comparison query" and "check_and_classify_query env query = Inr c"
    and "cl_context c = ''college''" and "validate_and_compare env query = Inl e"
  shows "calls_of (run env query) = [Classify query, Retrieve query, WebSearch query] \<and>
         (case recommend env query of
            Inr result \<Rightarrow>
              output_key (run env query) ''fallback_used'' = Some (PBool True) \<and>
              output_key (run env query) ''fallback_message'' = Some (PStr WEB_FALLBACK_MESSAGE) \<and>
              output_key (run env query) ''web'' =
                Some (PWeb [\<lparr>wr_text = response result,
                              wr_metadata = \<lparr>source = ''web_search_fallback'',
                                 results_analyzed = wr_results_analyzed result\<rparr>\<rparr>])
          | Inl e' \<Rightarrow>
              output_key (run env query) ''fallback_used'' = Some (PBool False) \<and>
              output_key (run env query) ''fallback_message'' = None \<and>
              output_key (run env query) ''web'' = Some (PWeb []))"
  by (simp add: run_primary_raises [OF assms] calls_of_def output_key_def state_of_def
        query_web_node_def compile_output_def split: sum.split)

text \<open>
  C6 as stated fails: the generic error text of the primary retrieval never reaches the
  output. With the web search up, \<open>query_web_node\<close> overwrites it.
\<close>

theorem primary_error_message_counterexample:
  "\<not> is_comparison EXAMPLE_QUERY \<and>
   check_and_classify_query primary_down EXAMPLE_QUERY = Inr college \<and>
   validate_and_compare primary_down EXAMPLE_QUERY = Inl ServiceError \<and>
   output_key (run primary_down EXAMPLE_QUERY) ''fallback_message''
     = Some (PStr WEB_FALLBACK_MESSAGE) \<and>
   WEB_FALLBACK_MESSAGE \<noteq> PRIMARY_ERROR_MESSAGE"
proof -
  have c: "check_and_classify_query primary_down EXAMPLE_QUERY = Inr college"
    and p: "validate_and_compare primary_down EXAMPLE_QUERY = Inl ServiceError"
    and w: "recommend primary_down EXAMPLE_QUERY = Inr web_answer"
    by (simp_all add: primary_down_def constant_services_def)
  have k: "cl_context college = ''college''"
    by (simp add: college_def)
  have "output_key (run primary_down EXAMPLE_QUERY) ''fallback_message''
          = Some (PStr WEB_FALLBACK_MESSAGE)"
    by (simp add: run_primary_raises [OF example_not_comparison c k p] output_key_def
          state_of_def query_web_node_def compile_output_def w)
  moreover have "WEB_FALLBACK_MESSAGE \<noteq> PRIMARY_ERROR_MESSAGE"
    by (simp add: WEB_FALLBACK_MESSAGE_def PRIMARY_ERROR_MESSAGE_def)
  ultimately show ?thesis
    using example_not_comparison c p by simp
qed

text \<open>Witness for C6: the scenario \<open>both_down\<close>.\<close>

theorem primary_error_reaches_web_search_witness:
  "\<not> is_comparison EXAMPLE_QUERY \<and>
   check_and_classify_query both_down EXAMPLE_QUERY = Inr college \<and>
   cl_context college = ''college'' \<and>
   validate_and_compare both_down EXAMPLE_QUERY = Inl ServiceError \<and>
   recommend both_down EXAMPLE_QUERY = Inl ServiceError \<and>
   calls_of (run both_down EXAMPLE_QUERY)
     = [Classify EXAMPLE_QUERY, Retrieve EXAMPLE_QUERY, WebSearch EXAMPLE_QUERY] \<and>
   output_key (run both_down EXAMPLE_QUERY) ''fallback_used'' = Some (PBool False) \<and>
   output_key (run both_down EXAMPLE_QUERY) ''fallback_message'' = None \<and>
   output_key (run both_down EXAMPLE_QUERY) ''web'' = Some (PWeb [])"
proof -
  have c: "check_and_classify_query both_down EXAMPLE_QUERY = Inr college"
    and p: "validate_and_compare both_down EXAMPLE_QUERY = Inl ServiceError"
    and w: "recommend both_down EXAMPLE_QUERY = Inl ServiceError"
    by (simp_all add: both_down_def constant_services_def)
  have k: "cl_context college = ''college''"
    by (simp add: college_def)
  from primary_error_reaches_web_search [OF example_not_comparison c k p]
  show ?thesis
    using example_not_comparison c k p w by simp
qed

subsection \<open>C7: exactly one of early_response and final_output\<close>

text \<open>
  C7 says that, whatever the collaborators do, exactly one of \<open>early_response\<close> and
  \<open>final_output\<close> is not \<open>None\<close> at the end. \<open>check_prompt_node\<close> means to
  answer a rejection with the classifier's text or else with its fixed message, but
  \<open>classification.get("response", STANDARD_RESPONSE)\<close> uses the fixed message only
  when the key is missing. In the scenario \<open>null_response\<close> the classifier rejects
  the query with \<open>response\<close> present and \<open>None\<close>: the run ends after that one
  call with \<open>early_response\<close> and \<open>final_output\<close> both \<open>None\<close>. On every
  other run that returns a state the invariant holds (\<open>exactly_one_result\<close>); a
  classifier that raises leaves no state at all, as under C1.
\<close>

theorem null_response_ends_with_neither:
  "calls_of (run null_response EXAMPLE_QUERY) = [Classify EXAMPLE_QUERY] \<and>
   map_option early_response (state_of (run null_response EXAMPLE_QUERY)) = Some None \<and>
   map_option final_output (state_of (run null_response EXAMPLE_QUERY)) = Some None"
proof -
  have c: "check_and_classify_query null_response EXAMPLE_QUERY = Inr other_null_response"
    by (simp add: null_response_def constant_services_def)
  have k: "cl_context other_null_response \<noteq> ''college''"
    by (simp add: other_null_response_def)
  show ?thesis
    by (simp add: run_rejected [OF example_not_comparison c k] calls_of_def state_of_def
          detected_def initial_state_def other_null_response_def)
qed

subsection \<open>C8: fallback_used at the end of a run\<close>

text \<open>
  C8, as amended. \<open>fallback_used\<close> is \<open>False\<close> in the initial state, and in the
  state a run returns it is \<open>True\<close> exactly when the web search was called and
  returned.
\<close>

theorem fallback_used_at_termination:
  "fallback_used (initial_state query :: 'r RecommendationState) = Some False \<and>
   (run env query = (cs, Inr (state :: 'r RecommendationState)) \<longrightarrow>
      (fallback_used state = Some True \<longleftrightarrow>
         WebSearch query \<in> set cs \<and> (\<exists>result. recommend env query = Inr result)))"
proof (intro conjI impI)
  show "fallback_used (initial_state query :: 'r RecommendationState) = Some False"
    by (simp add: initial_state_def)
next
  assume "run env query = (cs, Inr state)"
  then show "fallback_used state = Some True \<longleftrightarrow>
         WebSearch query \<in> set cs \<and> (\<exists>result. recommend env query = Inr result)"
  proof (cases rule: run_returns_cases)
    case comparison
    then show ?thesis by (simp add: initial_state_def)
  next
    case (rejected c)
    then show ?thesis by (simp add: detected_def initial_state_def)
  next
    case (web c)
    then show ?thesis by (simp add: fallback_used_query_web_node)
  next
    case (primary c)
    then show ?thesis by (simp add: fallback_used_query_combined_agent_node)
  qed
qed

text \<open>
  C8 as stated fails: with both retrievals down, the primary retrieval has failed and the
  fallback path has run, yet \<open>fallback_used\<close> is \<open>False\<close> at the end.
\<close>

theorem both_down_counterexample:
  "validate_and_compare both_down EXAMPLE_QUERY = Inl ServiceError \<and>
   WebSearch EXAMPLE_QUERY \<in> set (calls_of (run both_down EXAMPLE_QUERY)) \<and>
   map_option fallback_used (state_of (run both_down EXAMPLE_QUERY)) = Some (Some False)"
proof -
  have c: "check_and_classify_query both_down EXAMPLE_QUERY = Inr college"
    and p: "validate_and_compare both_down EXAMPLE_QUERY = Inl ServiceError"
    and w: "recommend both_down EXAMPLE_QUERY = Inl ServiceError"
    by (simp_all add: both_down_def constant_services_def)
  have k: "cl_context college = ''college''"
    by (simp add: college_def)
  show ?thesis
    by (simp add: run_primary_raises [OF example_not_comparison c k p] calls_of_def
          state_of_def query_web_node_def w p)
qed

text \<open>Witness for C8: the scenario \<open>primary_down\<close>.\<close>

theorem fallback_used_at_termination_witness:
  "recommend primary_down EXAMPLE_QUERY = Inr web_answer \<and>
   WebSearch EXAMPLE_QUERY \<in> set (calls_of (run primary_down EXAMPLE_QUERY)) \<and>
   map_option fallback_used (state_of (run primary_down EXAMPLE_QUERY)) = Some (Some True)"
proof -
  have w: "recommend primary_down EXAMPLE_QUERY = Inr web_answer"
    by (simp add: primary_down_def constant_services_def)
  let ?cs = "[Classify EXAMPLE_QUERY, Retrieve EXAMPLE_QUERY, WebSearch EXAMPLE_QUERY]"
  let ?state = "compile_results (snd (query_web_node primary_down
        ((accepted EXAMPLE_QUERY)\<lparr>combined_agent_results := None,
            snowflake_results := Present [], rag_results := Present [],
            fallback_used := Some True,
            fallback_message := Some PRIMARY_ERROR_MESSAGE\<rparr>)))"
  have r: "run primary_down EXAMPLE_QUERY = (?cs, Inr ?state)"
    by (rule run_primary_down)
  from fallback_used_at_termination [of EXAMPLE_QUERY primary_down ?cs ?state] r w
  have "fallback_used ?state = Some True"
    by simp
  with w show ?thesis
    by (simp add: r calls_of_def state_of_def)
qed

subsection \<open>C9: determinism\<close>

text \<open>
  C9. Two sets of collaborators that give the same three responses for a query give the
  same run on it: the same calls and the same returned state, \<open>final_output\<close>
  included. Nothing else enters a run.
\<close>

theorem run_deterministic:
  assumes "same_responses env env' query"
  shows "run env query = run env' query"
proof (cases "is_comparison query")
  case True
  then show ?thesis by (simp add: run_comparison)
next
  case False
  from assms have "run_from env Gatekeeper (detected query) = run_from env' Gatekeeper (detected query)"
    by (simp add: run_from_Gatekeeper_same)
  with False show ?thesis by (simp add: run_not_comparison)
qed

text \<open>Witness for C9: \<open>all_up\<close> and \<open>only_example\<close>, which differ on every other
  query.\<close>

theorem run_deterministic_witness:
  "same_responses all_up only_example EXAMPLE_QUERY \<and>
   run all_up EXAMPLE_QUERY = run only_example EXAMPLE_QUERY"
proof -
  have "same_responses all_up only_example EXAMPLE_QUERY"
    by (simp add: same_responses_def all_up_def constant_services_def only_example_def)
  with run_deterministic [of all_up only_example EXAMPLE_QUERY] show ?thesis
    by simp
qed

subsection \<open>C10: the keys of final_output\<close>

text \<open>
  C10. The \<open>final_output\<close> that \<open>compile_results\<close> writes has the keys
  \<open>query\<close>, \<open>combined_output\<close>, \<open>snowflake\<close>, \<open>rag\<close>, \<open>web\<close>
  and \<open>fallback_used\<close>, and the key \<open>fallback_message\<close> exactly when its
  \<open>fallback_used\<close> is \<open>True\<close>; \<open>fallback_used\<close> is a boolean, and when
  it is \<open>False\<close> there is no \<open>fallback_message\<close> and \<open>web\<close> is the
  empty list.
\<close>

theorem compile_results_keys:
  "final_output (compile_results state) = Some (compile_output state) \<and>
   dom (compile_output state) =
     {''query'', ''combined_output'', ''snowflake'', ''rag'', ''web'', ''fallback_used''} \<union>
     (if compile_output state ''fallback_used'' = Some (PBool True)
      then {''fallback_message''} else {}) \<and>
   (compile_output state ''fallback_used'' = Some (PBool True) \<or>
    compile_output state ''fallback_used'' = Some (PBool False)) \<and>
   (compile_output state ''fallback_used'' = Some (PBool False) \<longrightarrow>
      compile_output state ''fallback_message'' = None \<and>
      compile_output state ''web'' = Some (PWeb []))"
proof (cases "truthy_bool (fallback_used state)")
  case True
  then have out: "compile_output state =
      [''query'' \<mapsto> PStr (user_query state),
       ''combined_output'' \<mapsto> opt_str (combined_agent_results state),
       ''snowflake'' \<mapsto> PRows (get_field (snowflake_results state) []),
       ''rag'' \<mapsto> PRows (get_field (rag_results state) []),
       ''web'' \<mapsto> PWeb (web_results state),
       ''fallback_used'' \<mapsto> PBool True,
       ''fallback_message'' \<mapsto> opt_str (fallback_message state)]"
    by (simp add: compile_output_def Let_def)
  have "final_output (compile_results state) = Some (compile_output state)"
    by (simp add: compile_results_def)
  then show ?thesis
    unfolding out by auto
next
  case False
  then have out: "compile_output state =
      [''query'' \<mapsto> PStr (user_query state),
       ''combined_output'' \<mapsto> opt_str (combined_agent_results state),
       ''snowflake'' \<mapsto> PRows (get_field (snowflake_results state) []),
       ''rag'' \<mapsto> PRows (get_field (rag_results state) []),
       ''web'' \<mapsto> PWeb [],
       ''fallback_used'' \<mapsto> PBool False]"
    by (simp add: compile_output_def Let_def)
  have "final_output (compile_results state) = Some (compile_output state)"
    by (simp add: compile_results_def)
  then show ?thesis
    unfolding out by auto
qed

text \<open>Witness for C10: compiling the state of an accepted query, where
  \<open>fallback_used\<close> is \<open>False\<close>.\<close>

theorem compile_results_keys_witness:
  "compile_output (accepted EXAMPLE_QUERY :: row RecommendationState) ''fallback_used''
     = Some (PBool False) \<and>
   dom (compile_output (accepted EXAMPLE_QUERY :: row RecommendationState))
     = {''query'', ''combined_output'', ''snowflake'', ''rag'', ''web'', ''fallback_used''} \<and>
   compile_output (accepted EXAMPLE_QUERY :: row RecommendationState) ''fallback_message''
     = None \<and>
   compile_output (accepted EXAMPLE_QUERY :: row RecommendationState) ''web''
     = Some (PWeb [])"
proof -
  have unused: "compile_output (accepted EXAMPLE_QUERY :: row RecommendationState)
                  ''fallback_used'' = Some (PBool False)"
    by (simp add: compile_output_def accepted_def detected_def initial_state_def)
  with compile_results_keys [of "accepted EXAMPLE_QUERY :: row RecommendationState"]
  show ?thesis
    by simp
qed

end
